theory Spec2Isabelle
  imports Complex_Main
begin

section \<open>Python dictionaries and files\<close>

text \<open>
  A Python \<open>dict\<close> keeps its keys in insertion order, and the code iterates over its
  dictionaries, so a dictionary is an association list. \<open>dict_set\<close> is \<open>d[k] = v\<close>
  (an existing key keeps its place, a new key goes to the end), \<open>dict_del\<close> is
  \<open>del d[k]\<close>, \<open>dict_get\<close> is the lookup, \<open>dict_get_default\<close> is \<open>d.get(k, v)\<close>.
\<close>

definition dict_get :: "'k \<Rightarrow> ('k \<times> 'v) list \<Rightarrow> 'v option" where
  "dict_get k d = map_of d k"

definition dict_get_default :: "'k \<Rightarrow> 'v \<Rightarrow> ('k \<times> 'v) list \<Rightarrow> 'v" where
  "dict_get_default k v d = (case map_of d k of None \<Rightarrow> v | Some w \<Rightarrow> w)"

fun dict_set :: "'k \<Rightarrow> 'v \<Rightarrow> ('k \<times> 'v) list \<Rightarrow> ('k \<times> 'v) list" where
  "dict_set k v [] = [(k, v)]"
| "dict_set k v ((k', v') # d) =
     (if k' = k then (k, v) # d else (k', v') # dict_set k v d)"

definition dict_del :: "'k \<Rightarrow> ('k \<times> 'v) list \<Rightarrow> ('k \<times> 'v) list" where
  "dict_del k d = filter (\<lambda>kv. fst kv \<noteq> k) d"

text \<open>
  A file on disk is missing, holds text that \<open>json.load\<close> rejects, or holds a JSON
  document. A write with \<open>open(path, 'w')\<close> followed by \<open>json.dump\<close> either
  succeeds, fails before the file is opened (the file keeps its content), or fails
  after the file was truncated (the file holds a broken text).
\<close>

datatype 'a disk_file = Missing | Garbage | Doc 'a

datatype io_outcome = WriteOk | OpenFails | WriteFails

fun write_file :: "io_outcome \<Rightarrow> 'a \<Rightarrow> 'a disk_file \<Rightarrow> 'a disk_file" where
  "write_file WriteOk d f = Doc d"
| "write_file OpenFails d f = f"
| "write_file WriteFails d f = Garbage"

text \<open>\<open>str(user_id)\<close>: the decimal numeral of a Python integer.\<close>

function digits :: "nat \<Rightarrow> string" where
  "digits n = (if n < 10 then [''0123456789'' ! n]
               else digits (n div 10) @ [''0123456789'' ! (n mod 10)])"
  by pat_completeness auto
termination
  by (relation "measure id") auto

declare digits.simps [simp del]

definition str :: "int \<Rightarrow> string" where
  "str i = (if i < 0 then CHR ''-'' # digits (nat (- i)) else digits (nat i))"

section \<open>The session registry (utils/application_manager.py)\<close>

text \<open>
  A timestamp is an aware \<open>datetime\<close>, stored as its ISO text and read back with
  \<open>fromisoformat\<close>; both are modelled by the instant itself, in microseconds.
  \<open>timedelta(days=n)\<close> is \<open>days n\<close>.
\<close>

type_synonym time = int

definition days :: "int \<Rightarrow> time" where
  "days n = n * 86400000000"

record application =
  user_id :: int
  user_name :: string
  requested_dates :: "string list"
  additional_info :: string
  applied_at :: time

record session =
  s_applications :: "application list"
  s_deadline :: time
  s_channel_id :: int
  s_created_at :: time
  s_status :: string
  s_closed_at :: "time option"

record user_entry =
  message_id :: string
  applied_date :: time

text \<open>The JSON document of the store; a key may be absent from a document.\<close>

record document =
  doc_applications :: "(string \<times> session) list option"
  doc_user_applications :: "(string \<times> user_entry) list option"

record registry =
  applications :: "(string \<times> session) list"
  user_applications :: "(string \<times> user_entry) list"
  data_file :: "document disk_file"

text \<open>
  The three error results of the registry, which the code tells apart by their
  message: the session is not valid, the application period is over, the user has
  already applied.
\<close>

datatype error = UnknownSession | DeadlinePassed | DuplicateSubmission

record add_result =
  r_application :: application
  r_total_applications :: nat

record summary =
  total_applications :: nat
  unique_applicants :: nat
  date_counts :: "(string \<times> nat) list"
  popular_dates :: "string list"
  sum_deadline :: time
  sum_applications :: "application list"

record active_session =
  a_message_id :: string
  a_channel_id :: int
  a_created_at :: time
  a_deadline :: time
  a_summary :: "error + summary"

definition save_data :: "io_outcome \<Rightarrow> registry \<Rightarrow> registry" where
  "save_data io r =
     r\<lparr>data_file :=
         write_file io
           \<lparr>doc_applications = Some (applications r),
            doc_user_applications = Some (user_applications r)\<rparr>
           (data_file r)\<rparr>"

definition load_data :: "io_outcome \<Rightarrow> registry \<Rightarrow> registry" where
  "load_data io r =
     (case data_file r of
        Doc d \<Rightarrow>
          r\<lparr>applications := (case doc_applications d of None \<Rightarrow> [] | Some a \<Rightarrow> a),
            user_applications := (case doc_user_applications d of None \<Rightarrow> [] | Some u \<Rightarrow> u)\<rparr>
      | Missing \<Rightarrow> save_data io r
      | Garbage \<Rightarrow> r\<lparr>applications := [], user_applications := []\<rparr>)"

text \<open>The constructor: empty maps, then the load from the data file.\<close>

definition init :: "document disk_file \<Rightarrow> io_outcome \<Rightarrow> registry" where
  "init f io = load_data io \<lparr>applications = [], user_applications = [], data_file = f\<rparr>"

text \<open>
  Each operation takes the clock readings it makes (\<open>now\<close>, and \<open>now'\<close> for a second
  reading) and the outcome of the write it may attempt.
\<close>

definition create_application_session ::
  "registry \<Rightarrow> io_outcome \<Rightarrow> time \<Rightarrow> time \<Rightarrow> string \<Rightarrow> int \<Rightarrow> int \<Rightarrow> registry" where
  "create_application_session r io now now' mid channel deadline_days =
     save_data io
       (r\<lparr>applications :=
            dict_set mid
              \<lparr>s_applications = [], s_deadline = now + days deadline_days,
               s_channel_id = channel, s_created_at = now',
               s_status = ''active'', s_closed_at = None\<rparr>
              (applications r)\<rparr>)"

definition add_application ::
  "registry \<Rightarrow> io_outcome \<Rightarrow> time \<Rightarrow> time \<Rightarrow> string \<Rightarrow> int \<Rightarrow> string \<Rightarrow> string list \<Rightarrow> string
     \<Rightarrow> (error + add_result) \<times> registry" where
  "add_application r io now now' mid uid uname dates info =
     (case dict_get mid (applications r) of
        None \<Rightarrow> (Inl UnknownSession, r)
      | Some s \<Rightarrow>
          if now > s_deadline s then (Inl DeadlinePassed, r)
          else if (case dict_get (str uid) (user_applications r) of
                     None \<Rightarrow> False
                   | Some existing \<Rightarrow> message_id existing = mid)
          then (Inl DuplicateSubmission, r)
          else
            let app = \<lparr>user_id = uid, user_name = uname, requested_dates = dates,
                       additional_info = info, applied_at = now'\<rparr>;
                s' = s\<lparr>s_applications := s_applications s @ [app]\<rparr>;
                r' = save_data io
                       (r\<lparr>applications := dict_set mid s' (applications r),
                          user_applications :=
                            dict_set (str uid) \<lparr>message_id = mid, applied_date = now'\<rparr>
                              (user_applications r)\<rparr>)
            in (Inr \<lparr>r_application = app,
                     r_total_applications = length (s_applications s')\<rparr>, r'))"

text \<open>\<open>date_counts[date] = date_counts.get(date, 0) + 1\<close>, for every date of every application.\<close>

definition bump :: "string \<Rightarrow> (string \<times> nat) list \<Rightarrow> (string \<times> nat) list" where
  "bump date dc = dict_set date (dict_get_default date 0 dc + 1) dc"

definition count_dates :: "application list \<Rightarrow> (string \<times> nat) list" where
  "count_dates apps = fold (\<lambda>app dc. fold bump (requested_dates app) dc) apps []"

definition summarise :: "session \<Rightarrow> summary" where
  "summarise s =
     (let apps = s_applications s; dc = count_dates apps
      in \<lparr>total_applications = length apps,
          unique_applicants = card (set (map user_id apps)),
          date_counts = dc,
          popular_dates = map fst (filter (\<lambda>kv. snd kv > 1) dc),
          sum_deadline = s_deadline s,
          sum_applications = apps\<rparr>)"

definition get_applications_summary :: "registry \<Rightarrow> string \<Rightarrow> error + summary" where
  "get_applications_summary r mid =
     (case dict_get mid (applications r) of
        None \<Rightarrow> Inl UnknownSession
      | Some s \<Rightarrow> Inr (summarise s))"

definition close_application_session ::
  "registry \<Rightarrow> io_outcome \<Rightarrow> time \<Rightarrow> string \<Rightarrow> (error + summary) \<times> registry" where
  "close_application_session r io now mid =
     (case dict_get mid (applications r) of
        None \<Rightarrow> (Inl UnknownSession, r)
      | Some s \<Rightarrow>
          let r' = save_data io
                     (r\<lparr>applications :=
                          dict_set mid (s\<lparr>s_status := ''closed'', s_closed_at := Some now\<rparr>)
                            (applications r)\<rparr>)
          in (get_applications_summary r' mid, r'))"

text \<open>
  The cleanup has no \<open>return\<close> statement: its result is Python's \<open>None\<close>, here the
  \<open>None\<close> of \<open>int option\<close>. The number of removed sessions only goes to the log.
\<close>

definition cleanup_old_sessions ::
  "registry \<Rightarrow> io_outcome \<Rightarrow> time \<Rightarrow> int \<Rightarrow> int option \<times> registry" where
  "cleanup_old_sessions r io now ndays =
     (let cutoff_date = now - days ndays;
          to_remove = map fst (filter (\<lambda>kv. s_created_at (snd kv) < cutoff_date) (applications r));
          apps' = fold dict_del to_remove (applications r);
          to_remove_users =
            map fst (filter (\<lambda>kv. message_id (snd kv) \<in> set to_remove) (user_applications r));
          users' = fold dict_del to_remove_users (user_applications r);
          r' = r\<lparr>applications := apps', user_applications := users'\<rparr>
      in (None, if to_remove \<noteq> [] then save_data io r' else r'))"

definition get_active_sessions :: "registry \<Rightarrow> active_session list" where
  "get_active_sessions r =
     map (\<lambda>kv. \<lparr>a_message_id = fst kv, a_channel_id = s_channel_id (snd kv),
                a_created_at = s_created_at (snd kv), a_deadline = s_deadline (snd kv),
                a_summary = get_applications_summary r (fst kv)\<rparr>)
       (filter (\<lambda>kv. s_status (snd kv) = ''active'') (applications r))"

section \<open>The analytics store (utils/analytics.py)\<close>

text \<open>
  The counters hold Python values that JSON does not have. A \<open>set()\<close> is written
  \<open>PySet\<close> (its elements without repetition); what \<open>json.load\<close> returns in its
  place is a list, \<open>PyList\<close>, which has no \<open>add\<close>. A \<open>Counter()\<close> gives 0 for a
  missing key; what \<open>json.load\<close> returns is a plain dictionary, \<open>PyDict\<close>, where
  \<open>d[k] += 1\<close> raises for a missing key. A dictionary key is an integer or a
  string, and \<open>json.dump\<close> writes every key as a string.
\<close>

datatype 'a pycoll = PySet "'a list" | PyList "'a list"

datatype 'k pycounter = Counter "('k \<times> int) list" | PyDict "('k \<times> int) list"

datatype pykey = KInt int | KStr string

datatype 'a outcome = Ok 'a | Raised 'a

fun coll_add :: "'a \<Rightarrow> 'a pycoll \<Rightarrow> 'a pycoll option" where
  "coll_add x (PySet xs) = Some (PySet (if x \<in> set xs then xs else xs @ [x]))"
| "coll_add x (PyList xs) = None"

fun coll_len :: "'a pycoll \<Rightarrow> nat" where
  "coll_len (PySet xs) = length xs"
| "coll_len (PyList xs) = length xs"

fun counter_incr :: "'k \<Rightarrow> 'k pycounter \<Rightarrow> 'k pycounter option" where
  "counter_incr k (Counter d) = Some (Counter (dict_set k (dict_get_default k 0 d + 1) d))"
| "counter_incr k (PyDict d) =
     (case dict_get k d of None \<Rightarrow> None | Some v \<Rightarrow> Some (PyDict (dict_set k (v + 1) d)))"

text \<open>\<open>for date in dates: c[date] += 1\<close>; a raise keeps the increments made so far.\<close>

fun incr_all :: "'k list \<Rightarrow> 'k pycounter \<Rightarrow> 'k pycounter outcome" where
  "incr_all [] c = Ok c"
| "incr_all (k # ks) c =
     (case counter_incr k c of None \<Rightarrow> Raised c | Some c' \<Rightarrow> incr_all ks c')"

record month_stats =
  ms_total_applications :: int
  ms_unique_users :: "int pycoll"
  ms_popular_dates :: "string pycounter"
  ms_application_times :: "time list"
  ms_channels :: "pykey pycounter"

record user_data =
  up_total_applications :: int
  up_first_application :: time
  up_last_application :: time
  up_preferred_dates :: "string pycounter"
  up_application_months :: "string pycoll"

record popular_times =
  hourly :: "string pycounter option"
  daily :: "string pycounter option"

record channel_data =
  cp_total_applications :: int
  cp_unique_users :: "int pycoll"
  cp_average_participation :: int
  cp_last_activity :: time

record trend_data =
  tr_applications :: int
  tr_unique_users :: "int pycoll"
  tr_growth_rate :: int

record analytics_data =
  monthly_stats :: "(string \<times> month_stats) list"
  user_participation :: "(string \<times> user_data) list"
  popular_times :: popular_times
  channel_performance :: "(string \<times> channel_data) list"
  trends :: "(string \<times> trend_data) list"

record analytics =
  data :: analytics_data
  an_data_file :: "analytics_data disk_file"

text \<open>The flattened event that \<open>record_application\<close> receives.\<close>

record application_data =
  ev_user_id :: int
  ev_requested_dates :: "string list"
  ev_applied_at :: time
  ev_channel_id :: "int option"

text \<open>
  \<open>strftime\<close> of a timestamp, for the four formats the code uses (month
  \<open>%Y-%m\<close>, hour \<open>%H\<close>, weekday \<open>%A\<close>, week \<open>%Y-W%W\<close>), is taken as a parameter.
\<close>

record calendar =
  fmt_month :: "time \<Rightarrow> string"
  fmt_hour :: "time \<Rightarrow> string"
  fmt_day :: "time \<Rightarrow> string"
  fmt_week :: "time \<Rightarrow> string"

definition weeks_delta :: "int \<Rightarrow> time" where
  "weeks_delta n = days (7 * n)"

definition empty_data :: analytics_data where
  "empty_data =
     \<lparr>monthly_stats = [], user_participation = [],
      popular_times = \<lparr>hourly = None, daily = None\<rparr>,
      channel_performance = [], trends = []\<rparr>"

subsection \<open>What \<open>json.dump\<close> accepts and what \<open>json.load\<close> gives back\<close>

fun coll_serializable :: "'a pycoll \<Rightarrow> bool" where
  "coll_serializable (PySet xs) = False"
| "coll_serializable (PyList xs) = True"

definition json_serializable :: "analytics_data \<Rightarrow> bool" where
  "json_serializable d \<longleftrightarrow>
     list_all (\<lambda>kv. coll_serializable (ms_unique_users (snd kv))) (monthly_stats d) \<and>
     list_all (\<lambda>kv. coll_serializable (up_application_months (snd kv))) (user_participation d) \<and>
     list_all (\<lambda>kv. coll_serializable (cp_unique_users (snd kv))) (channel_performance d) \<and>
     list_all (\<lambda>kv. coll_serializable (tr_unique_users (snd kv))) (trends d)"

fun json_key :: "pykey \<Rightarrow> pykey" where
  "json_key (KInt i) = KStr (str i)"
| "json_key (KStr s) = KStr s"

fun counter_items :: "'k pycounter \<Rightarrow> ('k \<times> int) list" where
  "counter_items (Counter d) = d"
| "counter_items (PyDict d) = d"

definition json_counter :: "string pycounter \<Rightarrow> string pycounter" where
  "json_counter c = PyDict (counter_items c)"

definition json_key_counter :: "pykey pycounter \<Rightarrow> pykey pycounter" where
  "json_key_counter c =
     PyDict (fold (\<lambda>kv d. dict_set (json_key (fst kv)) (snd kv) d) (counter_items c) [])"

definition json_roundtrip :: "analytics_data \<Rightarrow> analytics_data" where
  "json_roundtrip d =
     d\<lparr>monthly_stats :=
         map (\<lambda>kv. (fst kv, (snd kv)\<lparr>ms_popular_dates := json_counter (ms_popular_dates (snd kv)),
                                     ms_channels := json_key_counter (ms_channels (snd kv))\<rparr>))
           (monthly_stats d),
       user_participation :=
         map (\<lambda>kv. (fst kv, (snd kv)\<lparr>up_preferred_dates := json_counter (up_preferred_dates (snd kv))\<rparr>))
           (user_participation d),
       popular_times :=
         \<lparr>hourly = map_option json_counter (hourly (popular_times d)),
          daily = map_option json_counter (daily (popular_times d))\<rparr>\<rparr>"

text \<open>
  \<open>_save_data\<close>: the file is opened for writing, which empties it, and \<open>json.dump\<close>
  writes the document piece by piece; at the first set it raises, the exception is
  logged, and the file is left empty or with the broken beginning of a document.
\<close>

definition an_save_data :: "io_outcome \<Rightarrow> analytics \<Rightarrow> analytics" where
  "an_save_data io a =
     a\<lparr>an_data_file :=
         (if json_serializable (data a)
          then write_file io (json_roundtrip (data a)) (an_data_file a)
          else (case io of OpenFails \<Rightarrow> an_data_file a | _ \<Rightarrow> Garbage))\<rparr>"

definition an_load_data :: "io_outcome \<Rightarrow> analytics \<Rightarrow> analytics" where
  "an_load_data io a =
     (case an_data_file a of
        Doc d \<Rightarrow> a\<lparr>data := d\<rparr>
      | Missing \<Rightarrow> an_save_data io a
      | Garbage \<Rightarrow> a\<lparr>data := empty_data\<rparr>)"

definition an_init :: "analytics_data disk_file \<Rightarrow> io_outcome \<Rightarrow> analytics" where
  "an_init f io = an_load_data io \<lparr>data = empty_data, an_data_file = f\<rparr>"

subsection \<open>Recording an application\<close>

text \<open>
  Each updater returns \<open>Ok\<close> with the updated data, or \<open>Raised\<close> with the data as the
  exception left it: the buckets are mutated in place, so what was done before the
  raise stays in memory.
\<close>

definition new_month_stats :: month_stats where
  "new_month_stats =
     \<lparr>ms_total_applications = 0, ms_unique_users = PySet [], ms_popular_dates = Counter [],
      ms_application_times = [], ms_channels = Counter []\<rparr>"

definition update_monthly_stats ::
  "string \<Rightarrow> application_data \<Rightarrow> analytics_data \<Rightarrow> analytics_data outcome" where
  "update_monthly_stats month_key ev d =
     (let st0 = (case dict_get month_key (monthly_stats d) of
                   None \<Rightarrow> new_month_stats | Some st \<Rightarrow> st);
          st1 = st0\<lparr>ms_total_applications := ms_total_applications st0 + 1\<rparr>;
          put = (\<lambda>st. d\<lparr>monthly_stats := dict_set month_key st (monthly_stats d)\<rparr>)
      in case coll_add (ev_user_id ev) (ms_unique_users st1) of
           None \<Rightarrow> Raised (put st1)
         | Some u \<Rightarrow>
             (case incr_all (ev_requested_dates ev) (ms_popular_dates st1) of
                Raised c \<Rightarrow> Raised (put (st1\<lparr>ms_unique_users := u, ms_popular_dates := c\<rparr>))
              | Ok c \<Rightarrow>
                  let st2 = st1\<lparr>ms_unique_users := u, ms_popular_dates := c,
                              ms_application_times :=
                                ms_application_times st1 @ [ev_applied_at ev]\<rparr>
                  in (case ev_channel_id ev of
                        None \<Rightarrow> Ok (put st2)
                      | Some ch \<Rightarrow>
                          (case counter_incr (KInt ch) (ms_channels st2) of
                             None \<Rightarrow> Raised (put st2)
                           | Some c' \<Rightarrow> Ok (put (st2\<lparr>ms_channels := c'\<rparr>))))))"

definition update_user_participation ::
  "calendar \<Rightarrow> application_data \<Rightarrow> analytics_data \<Rightarrow> analytics_data outcome" where
  "update_user_participation cal ev d =
     (let uid = str (ev_user_id ev);
          u0 = (case dict_get uid (user_participation d) of
                  None \<Rightarrow>
                    \<lparr>up_total_applications = 0, up_first_application = ev_applied_at ev,
                     up_last_application = ev_applied_at ev, up_preferred_dates = Counter [],
                     up_application_months = PySet []\<rparr>
                | Some u \<Rightarrow> u);
          u1 = u0\<lparr>up_total_applications := up_total_applications u0 + 1,
                  up_last_application := ev_applied_at ev\<rparr>;
          put = (\<lambda>u. d\<lparr>user_participation := dict_set uid u (user_participation d)\<rparr>)
      in case incr_all (ev_requested_dates ev) (up_preferred_dates u1) of
           Raised c \<Rightarrow> Raised (put (u1\<lparr>up_preferred_dates := c\<rparr>))
         | Ok c \<Rightarrow>
             (case coll_add (fmt_month cal (ev_applied_at ev)) (up_application_months u1) of
                None \<Rightarrow> Raised (put (u1\<lparr>up_preferred_dates := c\<rparr>))
              | Some m \<Rightarrow> Ok (put (u1\<lparr>up_preferred_dates := c, up_application_months := m\<rparr>))))"

definition update_popular_times ::
  "calendar \<Rightarrow> time \<Rightarrow> analytics_data \<Rightarrow> analytics_data outcome" where
  "update_popular_times cal current_time d =
     (let h0 = (case hourly (popular_times d) of None \<Rightarrow> Counter [] | Some c \<Rightarrow> c);
          d0 = (case daily (popular_times d) of None \<Rightarrow> Counter [] | Some c \<Rightarrow> c)
      in case counter_incr (fmt_hour cal current_time) h0 of
           None \<Rightarrow> Raised (d\<lparr>popular_times := \<lparr>hourly = Some h0, daily = Some d0\<rparr>\<rparr>)
         | Some h1 \<Rightarrow>
             (case counter_incr (fmt_day cal current_time) d0 of
                None \<Rightarrow> Raised (d\<lparr>popular_times := \<lparr>hourly = Some h1, daily = Some d0\<rparr>\<rparr>)
              | Some d1 \<Rightarrow> Ok (d\<lparr>popular_times := \<lparr>hourly = Some h1, daily = Some d1\<rparr>\<rparr>)))"

definition update_channel_performance ::
  "application_data \<Rightarrow> analytics_data \<Rightarrow> analytics_data outcome" where
  "update_channel_performance ev d =
     (case ev_channel_id ev of
        None \<Rightarrow> Ok d
      | Some ch \<Rightarrow>
          let cid = str ch;
              c0 = (case dict_get cid (channel_performance d) of
                      None \<Rightarrow>
                        \<lparr>cp_total_applications = 0, cp_unique_users = PySet [],
                         cp_average_participation = 0, cp_last_activity = ev_applied_at ev\<rparr>
                    | Some c \<Rightarrow> c);
              c1 = c0\<lparr>cp_total_applications := cp_total_applications c0 + 1\<rparr>;
              put = (\<lambda>c. d\<lparr>channel_performance := dict_set cid c (channel_performance d)\<rparr>)
          in (case coll_add (ev_user_id ev) (cp_unique_users c1) of
                None \<Rightarrow> Raised (put c1)
              | Some u \<Rightarrow>
                  Ok (put (c1\<lparr>cp_unique_users := u, cp_last_activity := ev_applied_at ev,
                              cp_average_participation := int (coll_len u)\<rparr>))))"

definition update_trends ::
  "calendar \<Rightarrow> time \<Rightarrow> application_data \<Rightarrow> analytics_data \<Rightarrow> analytics_data outcome" where
  "update_trends cal current_time ev d =
     (let week_key = fmt_week cal current_time;
          t0 = (case dict_get week_key (trends d) of
                  None \<Rightarrow> \<lparr>tr_applications = 0, tr_unique_users = PySet [], tr_growth_rate = 0\<rparr>
                | Some t \<Rightarrow> t);
          t1 = t0\<lparr>tr_applications := tr_applications t0 + 1\<rparr>;
          put = (\<lambda>t. d\<lparr>trends := dict_set week_key t (trends d)\<rparr>)
      in case coll_add (ev_user_id ev) (tr_unique_users t1) of
           None \<Rightarrow> Raised (put t1)
         | Some u \<Rightarrow> Ok (put (t1\<lparr>tr_unique_users := u\<rparr>)))"

fun bind :: "'a outcome \<Rightarrow> ('a \<Rightarrow> 'a outcome) \<Rightarrow> 'a outcome" where
  "bind (Ok x) f = f x"
| "bind (Raised x) f = Raised x"

text \<open>
  \<open>record_application\<close>: the five updaters in turn and then the save, all inside one
  \<open>try\<close>; an exception from an updater is logged and the save is skipped.
\<close>

definition record_application ::
  "calendar \<Rightarrow> analytics \<Rightarrow> io_outcome \<Rightarrow> time \<Rightarrow> application_data \<Rightarrow> analytics" where
  "record_application cal a io current_time ev =
     (case bind (bind (bind (bind
              (update_monthly_stats (fmt_month cal current_time) ev (data a))
              (update_user_participation cal ev))
              (update_popular_times cal current_time))
              (update_channel_performance ev))
              (update_trends cal current_time ev) of
        Ok d \<Rightarrow> an_save_data io (a\<lparr>data := d\<rparr>)
      | Raised d \<Rightarrow> a\<lparr>data := d\<rparr>)"

subsection \<open>Trend analysis\<close>


record trend_entry =
  week :: string
  te_applications :: int
  te_unique_users :: nat



definition collect_trends :: "calendar \<Rightarrow> analytics \<Rightarrow> time \<Rightarrow> int \<Rightarrow> trend_entry list" where
  "collect_trends cal a current_time weeks =
     concat (map (\<lambda>i. let week_key = fmt_week cal (current_time - weeks_delta (int i))
                       in (case dict_get week_key (trends (data a)) of
                             None \<Rightarrow> []
                           | Some t \<Rightarrow>
                               [\<lparr>week = week_key, te_applications = tr_applications t,
                                 te_unique_users = coll_len (tr_unique_users t)\<rparr>]))
               [0..<nat weeks])"



section \<open>Concrete registries and events\<close>

text \<open>
  The scenario of the specification: session \<open>m1\<close> with a deadline five days ahead,
  then an application of user 1 (A) and one of user 2 (B).
\<close>

definition scen_s1 :: session where
  "scen_s1 = \<lparr>s_applications = [], s_deadline = days 5, s_channel_id = 7, s_created_at = 0,
              s_status = ''active'', s_closed_at = None\<rparr>"

definition scen_r1 :: registry where
  "scen_r1 = create_application_session (init Missing WriteOk) WriteOk 0 0 ''m1'' 7 5"

definition scen_r2 :: registry where
  "scen_r2 = snd (add_application scen_r1 WriteOk 10 10 ''m1'' 1 ''A'' [''2024-07-10''] [])"

definition scen_r3 :: registry where
  "scen_r3 =
     snd (add_application scen_r2 WriteOk 20 20 ''m1'' 2 ''B'' [''2024-07-10'', ''2024-07-12''] [])"

definition scen_apps :: "application list" where
  "scen_apps =
     [\<lparr>user_id = 1, user_name = ''A'', requested_dates = [''2024-07-10''],
       additional_info = [], applied_at = 10\<rparr>,
      \<lparr>user_id = 2, user_name = ''B'', requested_dates = [''2024-07-10'', ''2024-07-12''],
       additional_info = [], applied_at = 20\<rparr>]"

definition scen_s3 :: session where
  "scen_s3 = scen_s1\<lparr>s_applications := scen_apps\<rparr>"

text \<open>Session \<open>m1\<close> closed at time 5, well before its deadline.\<close>

definition closed_r :: registry where
  "closed_r = snd (close_application_session scen_r1 WriteOk 5 ''m1'')"




text \<open>
  A session created at time 0 with an application of user 1, and a session created
  thirty days later with an application of user 2.
\<close>

definition cl_r1 :: registry where
  "cl_r1 = create_application_session (init Missing WriteOk) WriteOk 0 0 ''old'' 7 5"

definition cl_r2 :: registry where
  "cl_r2 = snd (add_application cl_r1 WriteOk 10 10 ''old'' 1 ''A'' [''2024-07-10''] [])"

definition cl_r3 :: registry where
  "cl_r3 = create_application_session cl_r2 WriteOk (days 30) (days 30) ''young'' 7 5"

definition cl_r4 :: registry where
  "cl_r4 =
     snd (add_application cl_r3 WriteOk (days 31) (days 31) ''young'' 2 ''B'' [''2024-08-10''] [])"


text \<open>A calendar and an event for the analytics store.\<close>

definition cal0 :: calendar where
  "cal0 = \<lparr>fmt_month = (\<lambda>t. ''2024-07''), fmt_hour = (\<lambda>t. ''12''),
           fmt_day = (\<lambda>t. ''Monday''), fmt_week = (\<lambda>t. str (t div days 7))\<rparr>"

definition event1 :: application_data where
  "event1 = \<lparr>ev_user_id = 1, ev_requested_dates = [''2024-07-10''], ev_applied_at = 0,
             ev_channel_id = Some 5\<rparr>"

section \<open>Dictionary lemmas\<close>

lemma keys_dict_set:
  "map fst (dict_set k v d) = (if k \<in> set (map fst d) then map fst d else map fst d @ [k])"
  by (induction d) (auto simp: rev_image_eqI)

lemma map_of_dict_set: "map_of (dict_set k v d) = (map_of d)(k \<mapsto> v)"
  by (induction d) auto

lemma dict_get_dict_set:
  "dict_get k (dict_set k' v d) = (if k = k' then Some v else dict_get k d)"
  by (simp add: dict_get_def map_of_dict_set)

lemma dict_get_member: "dict_get k d = Some v \<Longrightarrow> (k, v) \<in> set d"
  by (simp add: dict_get_def map_of_SomeD)

lemma fold_dict_del: "fold dict_del ks d = filter (\<lambda>kv. fst kv \<notin> set ks) d"
  by (induction ks arbitrary: d) (auto simp: dict_del_def intro: filter_cong)

lemma keys_filter_distinct:
  "distinct (map fst d) \<Longrightarrow> kv \<in> set d \<Longrightarrow> fst kv \<in> set (map fst (filter P d)) \<longleftrightarrow> P kv"
  by (induction d) (auto simp: image_iff)

lemma applications_save_data [simp]: "applications (save_data io r) = applications r"
  by (simp add: save_data_def)

lemma user_applications_save_data [simp]:
  "user_applications (save_data io r) = user_applications r"
  by (simp add: save_data_def)

section \<open>The date counts of a summary\<close>

lemma fold_bump_concat:
  "fold (\<lambda>app dc. fold bump (requested_dates app) dc) apps dc =
   fold bump (concat (map requested_dates apps)) dc"
  by (induction apps arbitrary: dc) auto

lemma keys_bump:
  "map fst (bump d dc) = (if d \<in> set (map fst dc) then map fst dc else map fst dc @ [d])"
  by (simp add: bump_def keys_dict_set)

lemma map_of_bump:
  "map_of (bump d dc) = (map_of dc)(d \<mapsto> (case map_of dc d of None \<Rightarrow> 0 | Some w \<Rightarrow> w) + 1)"
  by (simp add: bump_def map_of_dict_set dict_get_default_def)

text \<open>The keys come in the order of their first occurrence.\<close>

lemma keys_fold_bump: "map fst (fold bump ds []) = rev (remdups (rev ds))"
proof (induction ds rule: rev_induct)
  case Nil
  then show ?case by simp
next
  case (snoc d ds)
  have "set (map fst (fold bump ds [])) = set ds"
    unfolding snoc.IH by simp
  then show ?case
    using snoc.IH by (simp add: keys_bump)
qed

lemma count_list_snoc: "count_list (xs @ [y]) x = count_list xs x + (if x = y then 1 else 0)"
  by (induction xs) auto

lemma map_of_fold_bump:
  "map_of (fold bump ds []) d = (if d \<in> set ds then Some (count_list ds d) else None)"
proof (induction ds arbitrary: d rule: rev_induct)
  case Nil
  then show ?case by simp
next
  case (snoc x ds)
  show ?case
    by (simp add: map_of_bump snoc.IH count_list_snoc count_list_0_iff)
qed

lemma popular_filter:
  assumes "distinct (map fst dc)"
  shows "map fst (filter (\<lambda>kv. snd kv > (1::nat)) dc) =
         filter (\<lambda>d. \<exists>c. map_of dc d = Some c \<and> c > 1) (map fst dc)"
  using assms
proof (induction dc)
  case Nil
  then show ?case by simp
next
  case (Cons a dc)
  have "filter (\<lambda>d. \<exists>c. map_of (a # dc) d = Some c \<and> c > 1) (map fst dc) =
        filter (\<lambda>d. \<exists>c. map_of dc d = Some c \<and> c > 1) (map fst dc)"
    using Cons.prems by (intro filter_cong) (auto simp: image_iff)
  then show ?case using Cons by (cases a) simp
qed

lemma popular_fold_bump:
  "map fst (filter (\<lambda>kv. snd kv > 1) (fold bump ds [])) =
   filter (\<lambda>d. count_list ds d > 1) (rev (remdups (rev ds)))"
proof -
  have d: "distinct (map fst (fold bump ds []))" by (simp add: keys_fold_bump)
  show ?thesis
    unfolding popular_filter [OF d] keys_fold_bump
    by (intro filter_cong) (auto simp: map_of_fold_bump)
qed

section \<open>The session registry: the claims\<close>

text \<open>
  Claim C1, as amended. Closing a session sets its status to \<open>closed\<close> and keeps its
  application list, but \<open>add_application\<close> never reads the status: what stops it is
  the deadline. After the deadline a call on the closed session returns
  \<open>DeadlinePassed\<close> and leaves the registry and the file as they were; up to the
  deadline, an application of a user without an index entry is appended to the
  closed session.
\<close>

theorem closed_session_deadline_gate:
  assumes "dict_get mid (applications r) = Some s"
    and "r1 = snd (close_application_session r io t mid)"
  shows "map_option s_status (dict_get mid (applications r1)) = Some ''closed'' \<and>
         map_option s_applications (dict_get mid (applications r1)) = Some (s_applications s) \<and>
         (now > s_deadline s \<longrightarrow>
            add_application r1 io' now now' mid uid uname dates info = (Inl DeadlinePassed, r1)) \<and>
         (now \<le> s_deadline s \<and> dict_get (str uid) (user_applications r) = None \<longrightarrow>
            map_option s_applications
              (dict_get mid
                (applications (snd (add_application r1 io' now now' mid uid uname dates info)))) =
            Some (s_applications s @
               [\<lparr>user_id = uid, user_name = uname, requested_dates = dates,
                 additional_info = info, applied_at = now'\<rparr>]))"
  using assms
  by (simp add: close_application_session_def add_application_def Let_def dict_get_dict_set)

text \<open>
  The amended claim at the closed session \<open>m1\<close>: six days on, the application is
  refused and nothing changes; at time 10 it is appended.
\<close>

theorem closed_session_deadline_gate_witness:
  "dict_get ''m1'' (applications scen_r1) = Some scen_s1 \<and>
   add_application closed_r WriteOk (days 6) (days 6) ''m1'' 1 ''A'' [''2024-07-10''] [] =
     (Inl DeadlinePassed, closed_r) \<and>
   map_option s_applications
     (dict_get ''m1''
       (applications (snd (add_application closed_r WriteOk 10 10 ''m1'' 1 ''A'' [''2024-07-10''] [])))) =
     Some [\<lparr>user_id = 1, user_name = ''A'', requested_dates = [''2024-07-10''],
            additional_info = [], applied_at = 10\<rparr>]"
proof -
  have h: "dict_get ''m1'' (applications scen_r1) = Some scen_s1"
    by code_simp
  have late: "days 6 > s_deadline scen_s1"
    by code_simp
  have early: "10 \<le> s_deadline scen_s1 \<and> dict_get (str 1) (user_applications scen_r1) = None"
    by code_simp
  have empty: "s_applications scen_s1 = []"
    by (simp add: scen_s1_def)
  show ?thesis
    using h late early empty
      closed_session_deadline_gate [OF h closed_r_def, where now = "days 6" and now' = "days 6"
        and io' = WriteOk and uid = 1 and uname = "''A''" and dates = "[''2024-07-10'']"
        and info = "[]"]
      closed_session_deadline_gate [OF h closed_r_def, where now = 10 and now' = 10
        and io' = WriteOk and uid = 1 and uname = "''A''" and dates = "[''2024-07-10'']"
        and info = "[]"]
    by simp
qed

text \<open>
  Claim C1 as it is written fails: session \<open>m1\<close> is closed and empty, and an
  application made before the deadline is accepted and appended to it.
\<close>

theorem closed_session_accepts_application:
  "map_option s_status (dict_get ''m1'' (applications closed_r)) = Some ''closed'' \<and>
   map_option s_applications (dict_get ''m1'' (applications closed_r)) = Some [] \<and>
   map_option (map user_id \<circ> s_applications)
     (dict_get ''m1''
       (applications (snd (add_application closed_r WriteOk 10 10 ''m1'' 1 ''A'' [''2024-07-10''] [])))) =
     Some [1]"
  by code_simp




text \<open>
  Claim C3. The summary of an existing session is a function of the session alone
  (\<open>summarise\<close>): the total is the length of the application list, the number of
  unique applicants is the number of distinct user identifiers, \<open>date_counts\<close> has
  the requested date strings as keys, in the order of first occurrence, each with
  the number of its occurrences over all applications, and \<open>popular_dates\<close> is the
  keys with a count above 1, in that order. The scenario of the specification gives
  total 2, 2 unique applicants, the counts 2 and 1, and one popular date.
\<close>

theorem summary_computation:
  assumes "dict_get mid (applications r) = Some s"
  shows "(\<exists>sm. get_applications_summary r mid = Inr sm \<and> sm = summarise s \<and>
           total_applications sm = length (s_applications s) \<and>
           unique_applicants sm = card (user_id ` set (s_applications s)) \<and>
           map fst (date_counts sm) =
             rev (remdups (rev (concat (map requested_dates (s_applications s))))) \<and>
           (\<forall>d. map_of (date_counts sm) d =
              (if d \<in> set (concat (map requested_dates (s_applications s)))
               then Some (count_list (concat (map requested_dates (s_applications s))) d)
               else None)) \<and>
           popular_dates sm =
             filter (\<lambda>d. count_list (concat (map requested_dates (s_applications s))) d > 1)
               (rev (remdups (rev (concat (map requested_dates (s_applications s))))))) \<and>
         get_applications_summary scen_r3 ''m1'' =
           Inr \<lparr>total_applications = 2, unique_applicants = 2,
                date_counts = [(''2024-07-10'', 2), (''2024-07-12'', 1)],
                popular_dates = [''2024-07-10''], sum_deadline = days 5,
                sum_applications = scen_apps\<rparr>"
proof -
  let ?ds = "concat (map requested_dates (s_applications s))"
  have dc: "date_counts (summarise s) = fold bump ?ds []"
    by (simp add: summarise_def Let_def count_dates_def fold_bump_concat)
  have pop: "popular_dates (summarise s) =
      map fst (filter (\<lambda>kv. snd kv > 1) (fold bump ?ds []))"
    by (simp add: summarise_def Let_def count_dates_def fold_bump_concat)
  have "get_applications_summary r mid = Inr (summarise s)"
    using assms by (simp add: get_applications_summary_def)
  moreover have "total_applications (summarise s) = length (s_applications s)"
    by (simp add: summarise_def Let_def)
  moreover have "unique_applicants (summarise s) = card (user_id ` set (s_applications s))"
    by (simp add: summarise_def Let_def)
  moreover have "map fst (date_counts (summarise s)) = rev (remdups (rev ?ds))"
    unfolding dc by (rule keys_fold_bump)
  moreover have "\<forall>d. map_of (date_counts (summarise s)) d =
      (if d \<in> set ?ds then Some (count_list ?ds d) else None)"
    unfolding dc by (simp only: map_of_fold_bump) simp
  moreover have "popular_dates (summarise s) =
      filter (\<lambda>d. count_list ?ds d > 1) (rev (remdups (rev ?ds)))"
    unfolding pop by (rule popular_fold_bump)
  moreover have "get_applications_summary scen_r3 ''m1'' =
           Inr \<lparr>total_applications = 2, unique_applicants = 2,
                date_counts = [(''2024-07-10'', 2), (''2024-07-12'', 1)],
                popular_dates = [''2024-07-10''], sum_deadline = days 5,
                sum_applications = scen_apps\<rparr>"
    by code_simp
  ultimately show ?thesis by blast
qed

text \<open>The summary of the scenario, through the theorem.\<close>

theorem summary_computation_witness:
  "dict_get ''m1'' (applications scen_r3) = Some scen_s3 \<and>
   (\<exists>sm. get_applications_summary scen_r3 ''m1'' = Inr sm \<and>
      total_applications sm = 2 \<and> unique_applicants sm = 2 \<and>
      map fst (date_counts sm) = [''2024-07-10'', ''2024-07-12''] \<and>
      map_of (date_counts sm) ''2024-07-10'' = Some 2 \<and>
      map_of (date_counts sm) ''2024-07-12'' = Some 1 \<and>
      map_of (date_counts sm) ''2024-07-11'' = None \<and>
      popular_dates sm = [''2024-07-10''])"
proof -
  have h: "dict_get ''m1'' (applications scen_r3) = Some scen_s3"
    by code_simp
  let ?ds = "concat (map requested_dates (s_applications scen_s3))"
  have ds: "?ds = [''2024-07-10'', ''2024-07-10'', ''2024-07-12'']"
    by code_simp
  have n: "length (s_applications scen_s3) = 2"
    by code_simp
  have u: "card (user_id ` set (s_applications scen_s3)) = 2"
    by code_simp
  from summary_computation [OF h] obtain sm where
    sm: "get_applications_summary scen_r3 ''m1'' = Inr sm"
      "total_applications sm = length (s_applications scen_s3)"
      "unique_applicants sm = card (user_id ` set (s_applications scen_s3))"
      "map fst (date_counts sm) = rev (remdups (rev ?ds))"
      "\<forall>d. map_of (date_counts sm) d =
         (if d \<in> set ?ds then Some (count_list ?ds d) else None)"
      "popular_dates sm = filter (\<lambda>d. count_list ?ds d > 1) (rev (remdups (rev ?ds)))"
    by blast
  have "total_applications sm = 2" "unique_applicants sm = 2"
    using sm(2,3) n u by simp_all
  moreover have "map fst (date_counts sm) = [''2024-07-10'', ''2024-07-12'']"
    unfolding sm(4) ds by simp
  moreover have "map_of (date_counts sm) ''2024-07-10'' = Some 2"
    "map_of (date_counts sm) ''2024-07-12'' = Some 1"
    "map_of (date_counts sm) ''2024-07-11'' = None"
    using sm(5) unfolding ds by simp_all
  moreover have "popular_dates sm = [''2024-07-10'']"
    unfolding sm(6) ds by simp
  ultimately show ?thesis
    using h sm(1) by - (intro conjI exI [of _ sm]; assumption)
qed

text \<open>
  Claim C4. A call of \<open>add_application\<close> for a session identifier that is not in the
  applications map returns \<open>UnknownSession\<close>, and a call at a time after the
  session's deadline returns \<open>DeadlinePassed\<close>; in both cases the registry that
  comes back is the one that went in: both maps and the file on disk.
\<close>

theorem add_application_failure_atomic:
  "(dict_get mid (applications r) = None \<longrightarrow>
      add_application r io now now' mid uid uname dates info = (Inl UnknownSession, r)) \<and>
   (\<forall>s. dict_get mid (applications r) = Some s \<and> now > s_deadline s \<longrightarrow>
      add_application r io now now' mid uid uname dates info = (Inl DeadlinePassed, r))"
  by (simp add: add_application_def)

text \<open>
  Both failures in the scenario: the identifier \<open>missing\<close>, and session \<open>m1\<close> six
  days after its creation.
\<close>

theorem add_application_failure_atomic_witness:
  "dict_get ''missing'' (applications scen_r2) = None \<and>
   add_application scen_r2 WriteOk 20 20 ''missing'' 2 ''B'' [''2024-07-12''] [] =
     (Inl UnknownSession, scen_r2) \<and>
   map_option s_deadline (dict_get ''m1'' (applications scen_r2)) = Some (days 5) \<and>
   days 6 > days 5 \<and>
   add_application scen_r2 WriteOk (days 6) (days 6) ''m1'' 2 ''B'' [''2024-07-12''] [] =
     (Inl DeadlinePassed, scen_r2)"
proof -
  have n: "dict_get ''missing'' (applications scen_r2) = None"
    by code_simp
  have d: "map_option s_deadline (dict_get ''m1'' (applications scen_r2)) = Some (days 5)"
    by code_simp
  have l: "days 6 > days 5"
    by (simp add: days_def)
  from d obtain s where s: "dict_get ''m1'' (applications scen_r2) = Some s" "s_deadline s = days 5"
    by auto
  show ?thesis
    using n d l s
      add_application_failure_atomic [of "''missing''" scen_r2 WriteOk 20 20 2 "''B''"
        "[''2024-07-12'']" "[]"]
      add_application_failure_atomic [of "''m1''" scen_r2 WriteOk "days 6" "days 6" 2 "''B''"
        "[''2024-07-12'']" "[]"]
    by simp
qed



lemma cleanup_result:
  "fst (cleanup_old_sessions r io now ndays) = None"
  "applications (snd (cleanup_old_sessions r io now ndays)) =
     fold dict_del
       (map fst (filter (\<lambda>kv. s_created_at (snd kv) < now - days ndays) (applications r)))
       (applications r)"
  "user_applications (snd (cleanup_old_sessions r io now ndays)) =
     fold dict_del
       (map fst (filter (\<lambda>kv. message_id (snd kv) \<in>
           set (map fst (filter (\<lambda>kv. s_created_at (snd kv) < now - days ndays) (applications r))))
         (user_applications r)))
       (user_applications r)"
  by (simp_all add: cleanup_old_sessions_def Let_def del: set_map set_filter)

text \<open>
  Claim C6, as amended. On a registry whose two maps are dictionaries (no key
  twice), \<open>cleanup_old_sessions\<close> keeps exactly the sessions whose creation time is
  not before \<open>now - days\<close>, in their order, and exactly the UserIndex entries that do
  not name a removed session. It returns nothing: the number of removed sessions is
  only written to the log.
\<close>

theorem cleanup_old_sessions_effect:
  assumes "distinct (map fst (applications r))" and "distinct (map fst (user_applications r))"
    and "cleanup_old_sessions r io now ndays = (res, r')"
  shows "res = None \<and>
         applications r' =
           filter (\<lambda>kv. \<not> s_created_at (snd kv) < now - days ndays) (applications r) \<and>
         user_applications r' =
           filter (\<lambda>kv. message_id (snd kv) \<notin>
                     fst ` {kv \<in> set (applications r). s_created_at (snd kv) < now - days ndays})
             (user_applications r)"
proof -
  let ?old = "\<lambda>kv. s_created_at (snd kv) < now - days ndays"
  let ?rm = "map fst (filter ?old (applications r))"
  let ?rmu = "map fst (filter (\<lambda>kv. message_id (snd kv) \<in> set ?rm) (user_applications r))"
  have a: "applications r' = fold dict_del ?rm (applications r)"
    and u: "user_applications r' = fold dict_del ?rmu (user_applications r)"
    and n: "res = None"
    using cleanup_result [of r io now ndays] by (simp_all add: assms(3))
  have "filter (\<lambda>kv. fst kv \<notin> set ?rm) (applications r) =
      filter (\<lambda>kv. \<not> ?old kv) (applications r)"
    using keys_filter_distinct [OF assms(1)] by (intro filter_cong) auto
  moreover have "filter (\<lambda>kv. fst kv \<notin> set ?rmu) (user_applications r) =
      filter (\<lambda>kv. message_id (snd kv) \<notin> set ?rm) (user_applications r)"
    using keys_filter_distinct [OF assms(2)] by (intro filter_cong) auto
  moreover have "set ?rm = fst ` {kv \<in> set (applications r). ?old kv}"
    by auto
  ultimately show ?thesis
    using a u n by (simp add: fold_dict_del)
qed

text \<open>
  The scenario of the specification: forty days after the first session was
  created and ten days after the second, a cleanup with thirty days of retention
  removes the first session and the index entry of user 1, and keeps the second
  session and the entry of user 2.
\<close>

theorem cleanup_old_sessions_effect_witness:
  "distinct (map fst (applications cl_r4)) \<and> distinct (map fst (user_applications cl_r4)) \<and>
   map fst (applications cl_r4) = [''old'', ''young''] \<and>
   map fst (user_applications cl_r4) = [''1'', ''2''] \<and>
   fst (cleanup_old_sessions cl_r4 WriteOk (days 40) 30) = None \<and>
   applications (snd (cleanup_old_sessions cl_r4 WriteOk (days 40) 30)) =
     filter (\<lambda>kv. \<not> s_created_at (snd kv) < days 40 - days 30) (applications cl_r4) \<and>
   map fst (applications (snd (cleanup_old_sessions cl_r4 WriteOk (days 40) 30))) = [''young''] \<and>
   map fst (user_applications (snd (cleanup_old_sessions cl_r4 WriteOk (days 40) 30))) = [''2'']"
proof -
  have d1: "distinct (map fst (applications cl_r4))"
    by code_simp
  have d2: "distinct (map fst (user_applications cl_r4))"
    by code_simp
  have e: "cleanup_old_sessions cl_r4 WriteOk (days 40) 30 =
      (fst (cleanup_old_sessions cl_r4 WriteOk (days 40) 30),
       snd (cleanup_old_sessions cl_r4 WriteOk (days 40) 30))"
    by simp
  have k: "map fst (applications cl_r4) = [''old'', ''young'']"
    "map fst (user_applications cl_r4) = [''1'', ''2'']"
    "map fst (applications (snd (cleanup_old_sessions cl_r4 WriteOk (days 40) 30))) = [''young'']"
    "map fst (user_applications (snd (cleanup_old_sessions cl_r4 WriteOk (days 40) 30))) = [''2'']"
    by code_simp+
  show ?thesis
    using d1 d2 k cleanup_old_sessions_effect [OF d1 d2 e] by simp
qed

text \<open>
  Claim C6 as it is written fails in its last part: the cleanup above removes one
  session of two, and its result is not the number 1.
\<close>

theorem cleanup_returns_none:
  "length (applications cl_r4) = 2 \<and>
   length (applications (snd (cleanup_old_sessions cl_r4 WriteOk (days 40) 30))) = 1 \<and>
   fst (cleanup_old_sessions cl_r4 WriteOk (days 40) 30) \<noteq> Some 1"
  by code_simp

text \<open>
  Claim C9. When the write succeeds, a registry built from the file that
  \<open>save_data\<close> wrote has the same two maps, and so the same list of active sessions
  with the same fields, as the registry that was saved.
\<close>

theorem registry_round_trip:
  "get_active_sessions (init (data_file (save_data WriteOk r)) io) = get_active_sessions r \<and>
   applications (init (data_file (save_data WriteOk r)) io) = applications r \<and>
   user_applications (init (data_file (save_data WriteOk r)) io) = user_applications r"
  by (simp add: get_active_sessions_def init_def load_data_def save_data_def
      get_applications_summary_def)



section \<open>The analytics store: the claims\<close>


text \<open>
  The entries that \<open>get_trend_analysis\<close> collects are those of the week keys of the
  window, latest first, that are keys of the trends dictionary.
\<close>

lemma collect_trends_weeks:
  "map week (collect_trends cal a now weeks) =
     filter (\<lambda>k. dict_get k (trends (data a)) \<noteq> None)
       (map (\<lambda>i. fmt_week cal (now - weeks_delta (int i))) [0..<nat weeks])"
proof -
  have "map week (concat (map (\<lambda>i. let week_key = fmt_week cal (now - weeks_delta (int i))
                       in (case dict_get week_key (trends (data a)) of
                             None \<Rightarrow> []
                           | Some t \<Rightarrow>
                               [\<lparr>week = week_key, te_applications = tr_applications t,
                                 te_unique_users = coll_len (tr_unique_users t)\<rparr>])) is)) =
     filter (\<lambda>k. dict_get k (trends (data a)) \<noteq> None)
       (map (\<lambda>i. fmt_week cal (now - weeks_delta (int i))) is)" for "is"
    by (induction "is") (auto simp: Let_def split: option.splits)
  then show ?thesis by (simp add: collect_trends_def)
qed



subsection \<open>Recording never reaches the disk\<close>

lemma coll_add_not_serializable: "coll_add x c = Some u \<Longrightarrow> \<not> coll_serializable u"
  by (cases c) auto

lemma bind_Ok: "bind m f = Ok y \<Longrightarrow> \<exists>x. m = Ok x \<and> f x = Ok y"
  by (cases m) auto

lemma update_monthly_stats_set:
  assumes "update_monthly_stats mk ev d = Ok d1"
  shows "\<exists>st. dict_get mk (monthly_stats d1) = Some st \<and>
              \<not> coll_serializable (ms_unique_users st)"
  using assms
  by (auto simp: update_monthly_stats_def Let_def dict_get_dict_set
      split: option.splits outcome.splits dest: coll_add_not_serializable)

lemma update_user_participation_monthly:
  "update_user_participation cal ev d = Ok d1 \<Longrightarrow> monthly_stats d1 = monthly_stats d"
  by (auto simp: update_user_participation_def Let_def split: option.splits outcome.splits)

lemma update_popular_times_monthly:
  "update_popular_times cal t d = Ok d1 \<Longrightarrow> monthly_stats d1 = monthly_stats d"
  by (auto simp: update_popular_times_def Let_def split: option.splits outcome.splits)

lemma update_channel_performance_monthly:
  "update_channel_performance ev d = Ok d1 \<Longrightarrow> monthly_stats d1 = monthly_stats d"
  by (auto simp: update_channel_performance_def Let_def split: option.splits outcome.splits)

lemma update_trends_monthly:
  "update_trends cal t ev d = Ok d1 \<Longrightarrow> monthly_stats d1 = monthly_stats d"
  by (auto simp: update_trends_def Let_def split: option.splits outcome.splits)

text \<open>When all five updaters succeed, the month bucket holds a set.\<close>

lemma updaters_leave_a_set:
  assumes "bind (bind (bind (bind
              (update_monthly_stats mk ev d)
              (update_user_participation cal ev))
              (update_popular_times cal t))
              (update_channel_performance ev))
              (update_trends cal t ev) = Ok d'"
  shows "\<not> json_serializable d'"
proof -
  from assms obtain d4 where 4: "bind (bind (bind
              (update_monthly_stats mk ev d)
              (update_user_participation cal ev))
              (update_popular_times cal t))
              (update_channel_performance ev) = Ok d4"
    and e5: "update_trends cal t ev d4 = Ok d'"
    by (blast dest: bind_Ok)
  from 4 obtain d3 where 3: "bind (bind
              (update_monthly_stats mk ev d)
              (update_user_participation cal ev))
              (update_popular_times cal t) = Ok d3"
    and e4: "update_channel_performance ev d3 = Ok d4"
    by (blast dest: bind_Ok)
  from 3 obtain d2 where 2: "bind (update_monthly_stats mk ev d)
              (update_user_participation cal ev) = Ok d2"
    and e3: "update_popular_times cal t d2 = Ok d3"
    by (blast dest: bind_Ok)
  from 2 obtain d1 where e1: "update_monthly_stats mk ev d = Ok d1"
    and e2: "update_user_participation cal ev d1 = Ok d2"
    by (blast dest: bind_Ok)
  have "monthly_stats d' = monthly_stats d1"
    using update_user_participation_monthly [OF e2] update_popular_times_monthly [OF e3]
      update_channel_performance_monthly [OF e4] update_trends_monthly [OF e5] by simp
  moreover obtain st where "(mk, st) \<in> set (monthly_stats d1)"
    "\<not> coll_serializable (ms_unique_users st)"
    using update_monthly_stats_set [OF e1] by (blast dest: dict_get_member)
  ultimately show ?thesis
    by (force simp: json_serializable_def list_all_iff)
qed

text \<open>
  Claim C8: the code does not do what the claim says. No set is turned into a list
  before \<open>json.dump\<close> and no list into a set after \<open>json.load\<close>. For every store and
  event, \<open>record_application\<close> leaves the file as it was or broken, never with a new
  document: either an updater raises and the save is skipped, or the data holds a
  set and \<open>json.dump\<close> raises. On a new store, whose file holds the empty document,
  one recorded event updates the counters in memory and leaves the file broken, and
  an analytics object built from that file starts from the empty data again.
\<close>

theorem record_application_never_persists:
  "an_data_file (record_application cal a io t ev) \<in> {an_data_file a, Garbage} \<and>
   an_data_file (an_init Missing WriteOk) = Doc empty_data \<and>
   map fst (trends (data (record_application cal0 (an_init Missing WriteOk) WriteOk 0 event1))) =
     [''0''] \<and>
   an_data_file (record_application cal0 (an_init Missing WriteOk) WriteOk 0 event1) = Garbage \<and>
   data (an_init
           (an_data_file (record_application cal0 (an_init Missing WriteOk) WriteOk 0 event1))
           WriteOk) = empty_data"
proof -
  have "an_data_file (record_application cal a io t ev) \<in> {an_data_file a, Garbage}"
  proof (cases "bind (bind (bind (bind
              (update_monthly_stats (fmt_month cal t) ev (data a))
              (update_user_participation cal ev))
              (update_popular_times cal t))
              (update_channel_performance ev))
              (update_trends cal t ev)")
    case (Ok d')
    then have "\<not> json_serializable d'" by (rule updaters_leave_a_set)
    then show ?thesis
      using Ok by (cases io) (simp_all add: record_application_def an_save_data_def)
  next
    case (Raised d')
    then show ?thesis by (simp add: record_application_def)
  qed
  moreover have "an_data_file (an_init Missing WriteOk) = Doc empty_data"
    by code_simp
  moreover have
    "map fst (trends (data (record_application cal0 (an_init Missing WriteOk) WriteOk 0 event1))) =
     [''0'']"
    by code_simp
  moreover have
    "an_data_file (record_application cal0 (an_init Missing WriteOk) WriteOk 0 event1) = Garbage"
    by code_simp
  moreover have "data (an_init
           (an_data_file (record_application cal0 (an_init Missing WriteOk) WriteOk 0 event1))
           WriteOk) = empty_data"
    by code_simp
  ultimately show ?thesis by blast
qed

end
